theory Spec2Isabelle
  imports Complex_Main
begin

section \<open>The embedding endpoint of scripts/embed_service.py\<close>

text \<open>
  The script is one request handler around one library call:
  \<^verbatim>\<open>
  app = FastAPI()
  model = SentenceTransformer("all-MiniLM-L6-v2")

  @app.post("/embed")
  def embed(payload: dict):
      text = payload.get("text","")
      vec = model.encode(text).tolist()
      return vec

  if __name__ == "__main__":
      uvicorn.run(app, host="0.0.0.0", port=8081)
  \<close>
  The handler is modelled as written. The embedding library, the web framework and the
  server are third-party code: the library is a parameter of every definition, and the
  little of the framework that the handler's result passes through is written out below.
\<close>

subsection \<open>Values\<close>

text \<open>
  A Python value decoded from JSON. The type \<open>'f\<close> is the type of floating-point
  numbers: the service never computes with one, so it stays a parameter.
\<close>

datatype 'f json =
    JNull
  | JBool bool
  | JInt int
  | JFloat 'f
  | JStr string
  | JList "'f json list"
  | JDict "(string \<times> 'f json) list"

text \<open>
  The array that \<open>encode\<close> returns: a number, or a sequence of arrays along the
  first axis. A vector of \<open>n\<close> numbers is \<open>vector xs\<close> with \<open>length xs = n\<close>.
\<close>

datatype 'f ndarray =
    Scalar 'f
  | Axis "'f ndarray list"

definition vector :: "'f list \<Rightarrow> 'f ndarray" where
  "vector xs = Axis (map Scalar xs)"

text \<open>\<open>ndarray.tolist()\<close>: the same numbers, in the same order, as nested plain lists.\<close>

fun tolist :: "'f ndarray \<Rightarrow> 'f json" where
  "tolist (Scalar x) = JFloat x"
| "tolist (Axis xs) = JList (map tolist xs)"

text \<open>
  Reading one number out of an array and out of nested plain lists, by the indices along
  each axis: \<open>a[i][j]...\<close>. There is a number at an index path exactly when every
  index is in range and the path ends on a number.
\<close>

fun item :: "'f ndarray \<Rightarrow> nat list \<Rightarrow> 'f option" where
  "item a [] = (case a of Scalar x \<Rightarrow> Some x | Axis xs \<Rightarrow> None)"
| "item a (i # idx) =
     (case a of
        Scalar x \<Rightarrow> None
      | Axis xs \<Rightarrow> (if i < length xs then item (xs ! i) idx else None))"

fun json_item :: "'f json \<Rightarrow> nat list \<Rightarrow> 'f option" where
  "json_item v [] = (case v of JFloat x \<Rightarrow> Some x | _ \<Rightarrow> None)"
| "json_item v (i # idx) =
     (case v of
        JList ys \<Rightarrow> (if i < length ys then json_item (ys ! i) idx else None)
      | _ \<Rightarrow> None)"

text \<open>
  The array that a JSON value spells out as nested lists of floats, if it is one: the
  way back from a plain list to the array it came from.
\<close>

fun array_of_lists :: "'f json \<Rightarrow> 'f ndarray option" where
  "array_of_lists (JFloat x) = Some (Scalar x)"
| "array_of_lists (JList ys) =
     (if list_all (\<lambda>y. array_of_lists y \<noteq> None) ys
      then Some (Axis (map (\<lambda>y. the (array_of_lists y)) ys))
      else None)"
| "array_of_lists v = None"

text \<open>\<open>dict.get(key, default)\<close>: the value stored under the key, the default when
  the key is absent. A key that is present with the value \<open>None\<close> is present.\<close>

definition dict_get :: "('k \<rightharpoonup> 'v) \<Rightarrow> 'k \<Rightarrow> 'v \<Rightarrow> 'v" where
  "dict_get d k dflt = (case d k of None \<Rightarrow> dflt | Some v \<Rightarrow> v)"

text \<open>\<open>isinstance(v, str)\<close>.\<close>

fun is_str :: "'f json \<Rightarrow> bool" where
  "is_str (JStr s) = True"
| "is_str v = False"

type_synonym 'f payload = "string \<rightharpoonup> 'f json"

subsection \<open>The embedding library\<close>

text \<open>
  The two entry points of the library that the script calls. \<open>'m\<close> is the state of a
  loaded model object and \<open>'e\<close> the exceptions the library raises.
  \<^item> \<open>SentenceTransformer environ name\<close> is the constructor: it loads the named
    model, and may consult the process environment (cache directories and the like)
    and fail.
  \<^item> \<open>encode m x\<close> is \<open>m.encode(x)\<close>: an array or an exception, together with the
    state of the model object after the call.
\<close>

record ('m, 'e, 'f) library =
  SentenceTransformer :: "(string \<rightharpoonup> string) \<Rightarrow> string \<Rightarrow> 'e + 'm"
  encode :: "'m \<Rightarrow> 'f json \<Rightarrow> ('e + 'f ndarray) \<times> 'm"

subsection \<open>Module globals and the handler\<close>

text \<open>The module's two globals: the routes registered on \<open>app\<close>, and \<open>model\<close>.\<close>

record 'm globals =
  app :: "(string \<times> string) list"
  model :: 'm

text \<open>
  The handler. It reads the global \<open>model\<close> and assigns to no global; the only way
  the globals can differ after the call is through what \<open>encode\<close> does to the model
  object. An exception of \<open>encode\<close> is not caught.
\<close>

definition embed ::
  "('m, 'e, 'f) library \<Rightarrow> 'm globals \<Rightarrow> 'f payload \<Rightarrow> ('e + 'f json) \<times> 'm globals" where
  "embed lib g payload =
     (let text = dict_get payload ''text'' (JStr '''') in
      case encode lib (model g) text of
        (Inl e, m') \<Rightarrow> (Inl e, g\<lparr>model := m'\<rparr>)
      | (Inr arr, m') \<Rightarrow> (let vec = tolist arr in (Inr vec, g\<lparr>model := m'\<rparr>)))"

subsection \<open>The route\<close>

text \<open>
  What the client receives: status 200 with the handler's return value as the JSON body,
  or the framework's generic server error.
\<close>

datatype 'f response =
    Success "'f json"
  | ServerError

text \<open>
  Modelled from the spec: the status line of a response. The framework (not part of the
  repository) answers 200 on success and its default error status, 500, when the handler
  raises.
\<close>

fun status :: "'f response \<Rightarrow> nat" where
  "status (Success body) = 200"
| "status ServerError = 500"

text \<open>
  Modelled from the spec: the route that \<open>@app.post("/embed")\<close> registers around the
  handler, for a body that is a JSON object. A value returned by the handler is sent as
  the body of a 200 response; an exception that escapes the handler is surfaced as the
  generic server error, which does not show the exception to the client.
\<close>

definition post_embed ::
  "('m, 'e, 'f) library \<Rightarrow> 'm globals \<Rightarrow> 'f payload \<Rightarrow> 'f response \<times> 'm globals" where
  "post_embed lib g payload =
     (case embed lib g payload of
        (Inl e, g') \<Rightarrow> (ServerError, g')
      | (Inr vec, g') \<Rightarrow> (Success vec, g'))"

text \<open>
  Modelled from the spec: the server handing a sequence of requests to the route one
  after the other, each seeing the globals as the previous one left them.
\<close>

fun serve ::
  "('m, 'e, 'f) library \<Rightarrow> 'm globals \<Rightarrow> 'f payload list \<Rightarrow> 'f response list \<times> 'm globals" where
  "serve lib g [] = ([], g)"
| "serve lib g (p # ps) =
     (case post_embed lib g p of (r, g') \<Rightarrow>
        (case serve lib g' ps of (rs, g'') \<Rightarrow> (r # rs, g'')))"

subsection \<open>The script\<close>

text \<open>
  Running the module top to bottom. \<open>name\<close> is \<open>__name__\<close>; \<open>argv\<close> and
  \<open>environ\<close> are the command line and the environment of the process. The constructor
  runs first and an exception there ends the script. With \<open>__name__ == "__main__"\<close>
  the last statement hands \<open>app\<close> to \<open>uvicorn.run\<close> with the host and port written
  in the call, and nothing follows it; otherwise the module is only imported.
\<close>

datatype ('m, 'e) process =
    Crashed 'e
  | Imported "'m globals"
  | Serving "'m globals" string nat

definition script ::
  "('m, 'e, 'f) library \<Rightarrow> string \<Rightarrow> string list \<Rightarrow> (string \<rightharpoonup> string) \<Rightarrow> ('m, 'e) process" where
  "script lib name argv environ =
     (case SentenceTransformer lib environ ''all-MiniLM-L6-v2'' of
        Inl e \<Rightarrow> Crashed e
      | Inr m \<Rightarrow>
          (let g = \<lparr>app = [(''POST'', ''/embed'')], model = m\<rparr> in
           if name = ''__main__'' then Serving g ''0.0.0.0'' 8081 else Imported g))"

subsection \<open>A small library to run the definitions on\<close>

text \<open>
  An executable stand-in that follows the input contract of the library's \<open>encode\<close>:
  one sentence gives a vector of 384 numbers, a list of sentences gives one such row per
  sentence, anything else raises. The model object is its name, and \<open>encode\<close> leaves
  it alone.
\<close>

fun sentence_row :: "real json \<Rightarrow> real list" where
  "sentence_row (JStr s) = replicate 384 (real (length s))"
| "sentence_row v = []"

fun stub_encode :: "string \<Rightarrow> real json \<Rightarrow> (string + real ndarray) \<times> string" where
  "stub_encode m (JStr s) = (Inr (vector (sentence_row (JStr s))), m)"
| "stub_encode m (JList xs) =
     (if list_all is_str xs
      then (Inr (Axis (map (\<lambda>x. vector (sentence_row x)) xs)), m)
      else (Inl ''TypeError'', m))"
| "stub_encode m v = (Inl ''TypeError'', m)"

definition stub_library :: "(string, string, real) library" where
  "stub_library =
     \<lparr>SentenceTransformer = (\<lambda>environ name. Inr name), encode = stub_encode\<rparr>"

definition stub_globals :: "string globals" where
  "stub_globals = \<lparr>app = [(''POST'', ''/embed'')], model = ''all-MiniLM-L6-v2''\<rparr>"

text \<open>
  A second stand-in, for what \<open>encode\<close> does to the model object: the object carries
  the training flag of its modules, set when the model is constructed, and \<open>encode\<close>
  puts the model in evaluation mode before it computes.
\<close>

definition eval_library :: "(string \<times> bool, string, real) library" where
  "eval_library =
     \<lparr>SentenceTransformer = (\<lambda>environ name. Inr (name, True)),
      encode = (\<lambda>m x. (fst (stub_encode (fst m) x), (fst m, False)))\<rparr>"

section \<open>Properties\<close>

subsection \<open>Helper facts\<close>

lemma tolist_vector: "tolist (vector xs) = JList (map JFloat xs)"
  by (simp add: vector_def)

lemma post_embed_Inr:
  "encode lib (model g) (dict_get payload ''text'' (JStr '''')) = (Inr arr, m') \<Longrightarrow>
   post_embed lib g payload = (Success (tolist arr), g\<lparr>model := m'\<rparr>)"
  by (simp add: post_embed_def embed_def)

lemma post_embed_Inl:
  "encode lib (model g) (dict_get payload ''text'' (JStr '''')) = (Inl e, m') \<Longrightarrow>
   post_embed lib g payload = (ServerError, g\<lparr>model := m'\<rparr>)"
  by (simp add: post_embed_def embed_def)



lemma stub_encode_hello:
  "encode stub_library (model stub_globals) (JStr ''hello'')
     = (Inr (vector (replicate 384 5)), ''all-MiniLM-L6-v2'')"
  by (simp add: stub_library_def stub_globals_def)

lemma stub_encode_empty:
  "encode stub_library (model stub_globals) (JStr '''')
     = (Inr (vector (replicate 384 0)), ''all-MiniLM-L6-v2'')"
  by (simp add: stub_library_def stub_globals_def)


lemma json_item_tolist: "json_item (tolist a) idx = item a idx"
proof (induction idx arbitrary: a)
  case Nil
  show ?case by (cases a) simp_all
next
  case (Cons i idx)
  show ?case by (cases a) (simp_all add: Cons.IH)
qed

lemma array_of_lists_tolist: "array_of_lists (tolist a) = Some a"
proof (induction a)
  case (Scalar x)
  show ?case by simp
next
  case (Axis xs)
  then have each: "\<And>x. x \<in> set xs \<Longrightarrow> array_of_lists (tolist x) = Some x"
    by simp
  have "list_all (\<lambda>y. array_of_lists y \<noteq> None) (map tolist xs)"
    using each by (simp add: list_all_iff)
  moreover have "map (\<lambda>y. the (array_of_lists y)) (map tolist xs) = xs"
    using each by (simp add: map_idI)
  ultimately show ?case by simp
qed

lemma post_embed_globals:
  "snd (post_embed lib g payload)
     = g\<lparr>model := snd (encode lib (model g) (dict_get payload ''text'' (JStr '''')))\<rparr>"
proof -
  obtain r m' where enc: "encode lib (model g) (dict_get payload ''text'' (JStr '''')) = (r, m')"
    by (cases "encode lib (model g) (dict_get payload ''text'' (JStr ''''))")
  then show ?thesis
    by (cases r) (simp_all add: post_embed_Inl post_embed_Inr)
qed

lemma serve_globals:
  "snd (serve lib g ps)
     = g\<lparr>model := fold (\<lambda>p m. snd (encode lib m (dict_get p ''text'' (JStr '''')))) ps (model g)\<rparr>"
proof (induction ps arbitrary: g)
  case Nil
  show ?case by simp
next
  case (Cons p ps)
  obtain r g' where step: "post_embed lib g p = (r, g')"
    by (cases "post_embed lib g p")
  have g': "g' = g\<lparr>model := snd (encode lib (model g) (dict_get p ''text'' (JStr '''')))\<rparr>"
    using post_embed_globals [of lib g p] step by simp
  have "snd (serve lib g (p # ps)) = snd (serve lib g' ps)"
    using step by (simp split: prod.splits)
  also have "\<dots> = g'\<lparr>model := fold (\<lambda>p m. snd (encode lib m (dict_get p ''text'' (JStr ''''))))
                                ps (model g')\<rparr>"
    by (rule Cons.IH)
  finally show ?case by (simp add: g')
qed

lemma post_embed_constructor:
  "post_embed (lib\<lparr>SentenceTransformer := c\<rparr>) g payload = post_embed lib g payload"
  by (simp add: post_embed_def embed_def)

lemma serve_constructor:
  "serve (lib\<lparr>SentenceTransformer := c\<rparr>) g ps = serve lib g ps"
  by (induction ps arbitrary: g) (simp_all add: post_embed_constructor)

subsection \<open>String text: a vector of the model's dimension\<close>

text \<open>
  C1. A request whose body is a JSON object with a string under \<open>text\<close> is answered
  with status 200 and a JSON array of exactly \<open>N\<close> floats, \<open>N\<close> being the length of
  the vector that the model's \<open>encode\<close> returns for that string (384 for
  all-MiniLM-L6-v2). The length is the library's: the handler passes the numbers on.
\<close>

theorem embed_string_text_vector:
  assumes "payload ''text'' = Some (JStr s)"
    and "encode lib (model g) (JStr s) = (Inr (vector xs), m')"
    and "length xs = N"
  shows "fst (post_embed lib g payload) = Success (JList (map JFloat xs)) \<and>
         length (map JFloat xs) = N \<and>
         status (fst (post_embed lib g payload)) = 200"
proof -
  have "dict_get payload ''text'' (JStr '''') = JStr s"
    using assms(1) by (simp add: dict_get_def)
  with assms(2) have "post_embed lib g payload = (Success (tolist (vector xs)), g\<lparr>model := m'\<rparr>)"
    by (simp add: post_embed_Inr)
  with assms(3) show ?thesis by (simp add: tolist_vector)
qed

theorem embed_string_text_vector_witness:
  "map_of [(''text'', JStr ''hello'' :: real json)] ''text'' = Some (JStr ''hello'') \<and>
   encode stub_library (model stub_globals) (JStr ''hello'')
     = (Inr (vector (replicate 384 5)), ''all-MiniLM-L6-v2'') \<and>
   length (replicate 384 (5::real)) = 384 \<and>
   fst (post_embed stub_library stub_globals (map_of [(''text'', JStr ''hello'')]))
     = Success (JList (map JFloat (replicate 384 5))) \<and>
   status (fst (post_embed stub_library stub_globals (map_of [(''text'', JStr ''hello'')]))) = 200"
proof -
  have h1: "map_of [(''text'', JStr ''hello''::real json)] ''text'' = Some (JStr ''hello'')"
    by simp
  have h3: "length (replicate 384 (5::real)) = 384" by simp
  show ?thesis
    using embed_string_text_vector [where payload = "map_of [(''text'', JStr ''hello'')]"
        and s = "''hello''" and lib = stub_library and g = stub_globals
        and xs = "replicate 384 5" and m' = "''all-MiniLM-L6-v2''" and N = 384,
        OF h1 stub_encode_hello h3] h1 stub_encode_hello
    by simp
qed

subsection \<open>Missing text: the empty string\<close>

text \<open>
  C2. A request whose JSON object has no key \<open>text\<close> is handled exactly as the same
  object with \<open>text\<close> set to the empty string: the same response and the same globals
  afterwards. Where the model encodes the empty string to a vector, the response is
  status 200 with that vector, of the model's dimension.
\<close>

theorem embed_missing_text_is_empty:
  assumes "payload ''text'' = None"
  shows "post_embed lib g payload = post_embed lib g (payload(''text'' \<mapsto> JStr '''')) \<and>
         (\<forall>xs m'. encode lib (model g) (JStr '''') = (Inr (vector xs), m') \<longrightarrow>
            fst (post_embed lib g payload) = Success (JList (map JFloat xs)) \<and>
            status (fst (post_embed lib g payload)) = 200)"
proof -
  have get: "dict_get payload ''text'' (JStr '''') = JStr ''''"
    using assms by (simp add: dict_get_def)
  have same: "post_embed lib g payload = post_embed lib g (payload(''text'' \<mapsto> JStr ''''))"
    using assms by (simp add: post_embed_def embed_def dict_get_def)
  have ok: "fst (post_embed lib g payload) = Success (JList (map JFloat xs)) \<and>
            status (fst (post_embed lib g payload)) = 200"
    if "encode lib (model g) (JStr '''') = (Inr (vector xs), m')" for xs m'
    using that get by (simp add: post_embed_Inr tolist_vector)
  from same ok show ?thesis by blast
qed

theorem embed_missing_text_is_empty_witness:
  "map_of [(''lang'', JStr ''en'' :: real json)] ''text'' = None \<and>
   encode stub_library (model stub_globals) (JStr '''')
     = (Inr (vector (replicate 384 0)), ''all-MiniLM-L6-v2'') \<and>
   post_embed stub_library stub_globals (map_of [(''lang'', JStr ''en'')])
     = post_embed stub_library stub_globals
         ((map_of [(''lang'', JStr ''en'')])(''text'' \<mapsto> JStr '''')) \<and>
   fst (post_embed stub_library stub_globals (map_of [(''lang'', JStr ''en'')]))
     = Success (JList (map JFloat (replicate 384 0))) \<and>
   status (fst (post_embed stub_library stub_globals (map_of [(''lang'', JStr ''en'')]))) = 200"
proof -
  have h: "map_of [(''lang'', JStr ''en''::real json)] ''text'' = None"
    by simp
  note t = embed_missing_text_is_empty [where payload = "map_of [(''lang'', JStr ''en'')]"
        and lib = stub_library and g = stub_globals, OF h]
  note same = conjunct1 [OF t]
  note ok = conjunct2 [OF t, rule_format, OF stub_encode_empty]
  from h stub_encode_empty same ok show ?thesis
    by blast
qed

subsection \<open>Equal text, equal response\<close>



subsection \<open>Only the key text is consulted\<close>

text \<open>
  C4. Two request objects with the same value under \<open>text\<close> (or both without the
  key) receive the same response and leave the same globals, whatever their other keys.
\<close>

theorem only_text_is_consulted:
  assumes "p1 ''text'' = p2 ''text''"
  shows "embed lib g p1 = embed lib g p2 \<and> post_embed lib g p1 = post_embed lib g p2"
  using assms by (simp add: post_embed_def embed_def dict_get_def)

theorem only_text_is_consulted_witness:
  "map_of [(''text'', JStr ''hello''), (''id'', JInt 7 :: real json)] ''text''
     = map_of [(''text'', JStr ''hello''), (''lang'', JStr ''en'')] ''text'' \<and>
   post_embed stub_library stub_globals (map_of [(''text'', JStr ''hello''), (''id'', JInt 7)])
     = post_embed stub_library stub_globals
         (map_of [(''text'', JStr ''hello''), (''lang'', JStr ''en'')])"
proof -
  have h: "map_of [(''text'', JStr ''hello''), (''id'', JInt 7::real json)] ''text''
     = map_of [(''text'', JStr ''hello''), (''lang'', JStr ''en'')] ''text''"
    by simp
  show ?thesis
    using only_text_is_consulted [where lib = stub_library and g = stub_globals
        and ?p1.0 = "map_of [(''text'', JStr ''hello''), (''id'', JInt 7)]"
        and ?p2.0 = "map_of [(''text'', JStr ''hello''), (''lang'', JStr ''en'')]", OF h] h
    by blast
qed

subsection \<open>Non-string text\<close>

text \<open>
  C6, as the code has it. The handler checks no type: a non-string value under
  \<open>text\<close> reaches \<open>encode\<close> as it is, and \<open>encode\<close> alone decides the response.
  If \<open>encode\<close> raises, the exception propagates unhandled and the client receives the
  generic server error; if \<open>encode\<close> accepts the value, the client receives status 200
  with the converted array. The response is 200 exactly when \<open>encode\<close> returns.
\<close>

theorem nonstring_text_reaches_encode:
  assumes "payload ''text'' = Some v" and "\<not> is_str v"
  shows "fst (post_embed lib g payload)
           = (case fst (encode lib (model g) v) of
                Inl e \<Rightarrow> ServerError
              | Inr arr \<Rightarrow> Success (tolist arr)) \<and>
         (status (fst (post_embed lib g payload)) = 200
            \<longleftrightarrow> (\<exists>arr. fst (encode lib (model g) v) = Inr arr))"
proof -
  obtain r m' where enc: "encode lib (model g) v = (r, m')"
    by (cases "encode lib (model g) v")
  have get: "dict_get payload ''text'' (JStr '''') = v"
    using assms(1) by (simp add: dict_get_def)
  show ?thesis
    using enc get by (cases r) (simp_all add: post_embed_Inl post_embed_Inr)
qed

theorem nonstring_text_reaches_encode_witness:
  "map_of [(''text'', JInt 5 :: real json)] ''text'' = Some (JInt 5) \<and>
   is_str (JInt 5 :: real json) = False \<and>
   fst (post_embed stub_library stub_globals (map_of [(''text'', JInt 5)])) = ServerError \<and>
   status (fst (post_embed stub_library stub_globals (map_of [(''text'', JInt 5)]))) = 500"
proof -
  have h1: "map_of [(''text'', JInt 5 :: real json)] ''text'' = Some (JInt 5)"
    by simp
  have h2: "\<not> is_str (JInt 5 :: real json)"
    by simp
  have enc: "fst (encode stub_library (model stub_globals) (JInt 5)) = Inl ''TypeError''"
    by (simp add: stub_library_def)
  note t = nonstring_text_reaches_encode [where payload = "map_of [(''text'', JInt 5)]"
      and v = "JInt 5" and lib = stub_library and g = stub_globals, OF h1 h2]
  have r: "fst (post_embed stub_library stub_globals (map_of [(''text'', JInt 5)])) = ServerError"
    using conjunct1 [OF t] by (simp only: enc sum.case)
  show ?thesis
    using h1 h2 r by simp
qed

text \<open>
  The claim as stated fails on a list of sentences, which \<open>encode\<close> takes as a batch:
  the value is not a string and the response is 200, with one row per sentence.
\<close>

theorem nonstring_text_counterexample:
  "is_str (JList [JStr ''a'', JStr ''b''] :: real json) = False \<and>
   status (fst (post_embed stub_library stub_globals
                  (map_of [(''text'', JList [JStr ''a'', JStr ''b''])]))) = 200"
  by (simp add: post_embed_def embed_def dict_get_def stub_library_def stub_globals_def)

subsection \<open>Null text\<close>

text \<open>
  C9. A body with \<open>text\<close> present and null does not get the default: the handler
  passes null, not the empty string, to \<open>encode\<close>. Where \<open>encode\<close> raises on null,
  the request ends in the server error, while the same body without the key is answered
  from the encoding of the empty string.
\<close>

theorem null_text_is_not_defaulted:
  assumes "payload ''text'' = Some JNull"
    and "encode lib (model g) JNull = (Inl e, m')"
  shows "dict_get payload ''text'' (JStr '''') = JNull \<and>
         embed lib g payload = (Inl e, g\<lparr>model := m'\<rparr>) \<and>
         fst (post_embed lib g payload) = ServerError \<and>
         (\<forall>arr m''. encode lib (model g) (JStr '''') = (Inr arr, m'') \<longrightarrow>
            fst (post_embed lib g (payload(''text'' := None))) = Success (tolist arr))"
proof -
  have get: "dict_get payload ''text'' (JStr '''') = JNull"
    using assms(1) by (simp add: dict_get_def)
  have emb: "embed lib g payload = (Inl e, g\<lparr>model := m'\<rparr>)"
    using assms(2) get by (simp add: embed_def)
  have resp: "fst (post_embed lib g payload) = ServerError"
    using assms(2) get by (simp add: post_embed_Inl)
  have absent: "fst (post_embed lib g (payload(''text'' := None))) = Success (tolist arr)"
    if "encode lib (model g) (JStr '''') = (Inr arr, m'')" for arr m''
  proof -
    have "dict_get (payload(''text'' := None)) ''text'' (JStr '''') = JStr ''''"
      by (simp add: dict_get_def)
    with that show ?thesis by (simp add: post_embed_Inr)
  qed
  from get emb resp absent show ?thesis by blast
qed

theorem null_text_is_not_defaulted_witness:
  "map_of [(''text'', JNull :: real json)] ''text'' = Some JNull \<and>
   encode stub_library (model stub_globals) JNull = (Inl ''TypeError'', ''all-MiniLM-L6-v2'') \<and>
   fst (post_embed stub_library stub_globals (map_of [(''text'', JNull)])) = ServerError \<and>
   fst (post_embed stub_library stub_globals ((map_of [(''text'', JNull)])(''text'' := None)))
     = Success (JList (map JFloat (replicate 384 0)))"
proof -
  have h1: "map_of [(''text'', JNull :: real json)] ''text'' = Some JNull"
    by simp
  have h2: "encode stub_library (model stub_globals) JNull
      = (Inl ''TypeError'', ''all-MiniLM-L6-v2'')"
    by (simp add: stub_library_def stub_globals_def)
  note t = null_text_is_not_defaulted [where payload = "map_of [(''text'', JNull)]"
      and lib = stub_library and g = stub_globals, OF h1 h2]
  note fault = conjunct1 [OF conjunct2 [OF conjunct2 [OF t]]]
  note absent = conjunct2 [OF conjunct2 [OF conjunct2 [OF t]], rule_format, OF stub_encode_empty]
  have absent': "fst (post_embed stub_library stub_globals
        ((map_of [(''text'', JNull)])(''text'' := None)))
     = Success (JList (map JFloat (replicate 384 0)))"
    using absent by (simp only: tolist_vector)
  from h1 h2 fault absent' show ?thesis by blast
qed

subsection \<open>The response is the raw output\<close>

text \<open>
  C10. Whenever a request succeeds, the body of the response is the array returned by
  \<open>encode\<close> on the request's text, as plain nested lists and nothing else. Stated on
  the body and the array alone: the body spells out exactly that array; at every index
  path the body holds a number exactly when the array does, and it is the same number;
  and for a vector the JSON array holds the same numbers, as many and in the same order.
  Nothing is dropped, added, changed or moved, for an array of any shape.
\<close>

theorem response_is_raw_output:
  assumes "fst (post_embed lib g payload) = Success body"
  shows "\<exists>arr. fst (encode lib (model g) (dict_get payload ''text'' (JStr ''''))) = Inr arr \<and>
           array_of_lists body = Some arr \<and>
           (\<forall>idx. json_item body idx = item arr idx) \<and>
           (\<forall>xs. arr = vector xs \<longrightarrow> body = JList (map JFloat xs))"
proof -
  obtain r m' where enc: "encode lib (model g) (dict_get payload ''text'' (JStr '''')) = (r, m')"
    by (cases "encode lib (model g) (dict_get payload ''text'' (JStr ''''))")
  show ?thesis
  proof (cases r)
    case (Inl e)
    with enc assms show ?thesis by (simp add: post_embed_Inl)
  next
    case (Inr arr)
    with enc assms have body: "body = tolist arr" by (simp add: post_embed_Inr)
    have "fst (encode lib (model g) (dict_get payload ''text'' (JStr ''''))) = Inr arr"
      using enc Inr by simp
    moreover have "array_of_lists body = Some arr"
      by (simp add: body array_of_lists_tolist)
    moreover have "\<forall>idx. json_item body idx = item arr idx"
      by (simp add: body json_item_tolist)
    moreover have "\<forall>xs. arr = vector xs \<longrightarrow> body = JList (map JFloat xs)"
      by (simp add: body tolist_vector)
    ultimately show ?thesis by blast
  qed
qed

theorem response_is_raw_output_witness:
  "fst (post_embed stub_library stub_globals (map_of [(''text'', JList [JStr ''a'', JStr ''bc''])]))
     = Success (JList [JList (map JFloat (replicate 384 1)), JList (map JFloat (replicate 384 2))]) \<and>
   fst (encode stub_library (model stub_globals)
          (dict_get (map_of [(''text'', JList [JStr ''a'', JStr ''bc''])]) ''text'' (JStr '''')))
     = Inr (Axis [vector (replicate 384 1), vector (replicate 384 2)]) \<and>
   array_of_lists (JList [JList (map JFloat (replicate 384 1)), JList (map JFloat (replicate 384 (2::real)))])
     = Some (Axis [vector (replicate 384 1), vector (replicate 384 2)]) \<and>
   json_item (JList [JList (map JFloat (replicate 384 1)), JList (map JFloat (replicate 384 (2::real)))])
       [1, 383]
     = item (Axis [vector (replicate 384 1), vector (replicate 384 2)]) [1, 383]"
proof -
  let ?p = "map_of [(''text'', JList [JStr ''a'', JStr ''bc''] :: real json)]"
  let ?arr = "Axis [vector (replicate 384 1), vector (replicate 384 (2::real))]"
  let ?body = "JList [JList (map JFloat (replicate 384 1)),
                      JList (map JFloat (replicate 384 (2::real)))]"
  have get: "dict_get ?p ''text'' (JStr '''') = JList [JStr ''a'', JStr ''bc'']"
    by (simp add: dict_get_def)
  have enc: "encode stub_library (model stub_globals) (JList [JStr ''a'', JStr ''bc''])
      = (Inr ?arr, ''all-MiniLM-L6-v2'')"
    by (simp add: stub_library_def stub_globals_def)
  have h: "fst (post_embed stub_library stub_globals ?p) = Success ?body"
    using enc get by (simp add: post_embed_Inr tolist_vector)
  from response_is_raw_output [OF h] obtain arr where
    a1: "fst (encode stub_library (model stub_globals) (dict_get ?p ''text'' (JStr ''''))) = Inr arr"
    and a2: "array_of_lists ?body = Some arr"
    and a3: "\<forall>idx. json_item ?body idx = item arr idx"
    by blast
  have arr: "arr = ?arr"
    using a1 enc get by simp
  from h a1 a2 a3 [rule_format, of "[1, 383]"] show ?thesis
    unfolding arr by blast
qed

subsection \<open>Process state\<close>

text \<open>
  C7, as the code has it. The handler itself writes nothing: after a request the globals
  of the process are the globals before it, except for the state of the model object,
  which is what the request's one \<open>encode\<close> call left; after a run of requests it is
  what their \<open>encode\<close> calls left, in order. Whether the model object changes is the
  library's doing. No request constructs or replaces the model: neither a request nor a
  run depends on the constructor at all. In a process started by the script, the model
  that the requests use is the one object the constructor returned when the module was
  executed, and the script consults the constructor for that one model only.
\<close>

theorem requests_write_only_through_encode:
  "snd (post_embed lib g payload)
     = g\<lparr>model := snd (encode lib (model g) (dict_get payload ''text'' (JStr '''')))\<rparr> \<and>
   snd (serve lib g ps)
     = g\<lparr>model := fold (\<lambda>p m. snd (encode lib m (dict_get p ''text'' (JStr ''''))))
                     ps (model g)\<rparr> \<and>
   post_embed (lib\<lparr>SentenceTransformer := c\<rparr>) g payload = post_embed lib g payload \<and>
   serve (lib\<lparr>SentenceTransformer := c\<rparr>) g ps = serve lib g ps \<and>
   (\<forall>name argv environ host port.
      script lib name argv environ = Serving g host port \<longrightarrow>
      SentenceTransformer lib environ ''all-MiniLM-L6-v2'' = Inr (model g) \<and>
      (c environ ''all-MiniLM-L6-v2'' = SentenceTransformer lib environ ''all-MiniLM-L6-v2'' \<longrightarrow>
         script (lib\<lparr>SentenceTransformer := c\<rparr>) name argv environ = Serving g host port))"
proof -
  have loaded: "SentenceTransformer lib environ ''all-MiniLM-L6-v2'' = Inr (model g)"
    if "script lib name argv environ = Serving g host port" for name argv environ host port
    using that by (auto simp: script_def Let_def split: sum.splits if_splits)
  have once: "script (lib\<lparr>SentenceTransformer := c\<rparr>) name argv environ = Serving g host port"
    if "script lib name argv environ = Serving g host port"
      and "c environ ''all-MiniLM-L6-v2'' = SentenceTransformer lib environ ''all-MiniLM-L6-v2''"
    for name argv environ host port
    using that by (simp add: script_def)
  show ?thesis
    using loaded once
    by (simp add: post_embed_globals serve_globals post_embed_constructor serve_constructor)
qed

theorem requests_write_only_through_encode_witness:
  "script eval_library ''__main__'' [] (map_of [])
     = Serving \<lparr>app = [(''POST'', ''/embed'')], model = (''all-MiniLM-L6-v2'', True)\<rparr>
         ''0.0.0.0'' 8081 \<and>
   SentenceTransformer eval_library (map_of []) ''all-MiniLM-L6-v2''
     = Inr (model \<lparr>app = [(''POST'', ''/embed'')], model = (''all-MiniLM-L6-v2'', True)\<rparr>) \<and>
   snd (serve eval_library
          \<lparr>app = [(''POST'', ''/embed'')], model = (''all-MiniLM-L6-v2'', True)\<rparr>
          [map_of [(''text'', JStr ''hello'')], map_of [(''text'', JNull)]])
     = \<lparr>app = [(''POST'', ''/embed'')], model = (''all-MiniLM-L6-v2'', False)\<rparr>"
proof -
  let ?g = "\<lparr>app = [(''POST'', ''/embed'')], model = (''all-MiniLM-L6-v2'', True)\<rparr>"
  let ?ps = "[map_of [(''text'', JStr ''hello'')], map_of [(''text'', JNull :: real json)]]"
  have started: "script eval_library ''__main__'' [] (map_of []) = Serving ?g ''0.0.0.0'' 8081"
    by (simp add: script_def eval_library_def)
  note t = requests_write_only_through_encode [where lib = eval_library and g = ?g
      and ps = ?ps and payload = "map_of []" and c = "SentenceTransformer eval_library"]
  note run = conjunct1 [OF conjunct2 [OF t]]
  note loaded = conjunct1 [OF conjunct2 [OF conjunct2 [OF conjunct2 [OF conjunct2 [OF t]]],
      rule_format, OF started]]
  have after: "snd (serve eval_library ?g ?ps)
      = \<lparr>app = [(''POST'', ''/embed'')], model = (''all-MiniLM-L6-v2'', False)\<rparr>"
    unfolding run by (simp add: eval_library_def)
  from started loaded after show ?thesis by blast
qed

text \<open>
  The claim as stated fails on the first request of a process: \<open>encode\<close> puts the
  model in evaluation mode, so the shared model object after the request is not the
  object as the constructor left it.
\<close>

theorem first_request_changes_model_counterexample:
  "script eval_library ''__main__'' [] (map_of [])
     = Serving \<lparr>app = [(''POST'', ''/embed'')], model = (''all-MiniLM-L6-v2'', True)\<rparr>
         ''0.0.0.0'' 8081 \<and>
   snd (post_embed eval_library
          \<lparr>app = [(''POST'', ''/embed'')], model = (''all-MiniLM-L6-v2'', True)\<rparr>
          (map_of [(''text'', JStr ''hello'')]))
     = \<lparr>app = [(''POST'', ''/embed'')], model = (''all-MiniLM-L6-v2'', False)\<rparr> \<and>
   snd (post_embed eval_library
          \<lparr>app = [(''POST'', ''/embed'')], model = (''all-MiniLM-L6-v2'', True)\<rparr>
          (map_of [(''text'', JStr ''hello'')]))
     \<noteq> \<lparr>app = [(''POST'', ''/embed'')], model = (''all-MiniLM-L6-v2'', True)\<rparr>"
  by (simp add: script_def post_embed_def embed_def dict_get_def eval_library_def)

subsection \<open>Bootstrap\<close>

text \<open>
  C8. Run as the main module, the script, once the model is loaded, ends in the call
  that serves \<open>app\<close> on host 0.0.0.0 and port 8081, whatever the command line and the
  environment of the process are; it serves on no other address, and it serves only when
  run as the main module.
\<close>

theorem bootstrap_binds_fixed_address:
  assumes "SentenceTransformer lib environ ''all-MiniLM-L6-v2'' = Inr m"
  shows "script lib ''__main__'' argv environ
           = Serving \<lparr>app = [(''POST'', ''/embed'')], model = m\<rparr> ''0.0.0.0'' 8081 \<and>
         (\<forall>name g host port. script lib name argv environ = Serving g host port \<longrightarrow>
            name = ''__main__'' \<and> host = ''0.0.0.0'' \<and> port = 8081)"
  using assms by (auto simp: script_def Let_def split: if_splits)

theorem bootstrap_binds_fixed_address_witness:
  "SentenceTransformer stub_library (map_of [(''PORT'', ''9000''), (''HOST'', ''127.0.0.1'')])
     ''all-MiniLM-L6-v2'' = Inr ''all-MiniLM-L6-v2'' \<and>
   script stub_library ''__main__'' [''--port'', ''9000'']
     (map_of [(''PORT'', ''9000''), (''HOST'', ''127.0.0.1'')])
     = Serving \<lparr>app = [(''POST'', ''/embed'')], model = ''all-MiniLM-L6-v2''\<rparr> ''0.0.0.0'' 8081"
proof -
  have h: "SentenceTransformer stub_library (map_of [(''PORT'', ''9000''), (''HOST'', ''127.0.0.1'')])
     ''all-MiniLM-L6-v2'' = Inr ''all-MiniLM-L6-v2''"
    by (simp add: stub_library_def)
  note t = bootstrap_binds_fixed_address [where lib = stub_library
      and argv = "[''--port'', ''9000'']", OF h]
  from h conjunct1 [OF t] show ?thesis by blast
qed

end
